theory Spec2Isabelle
  imports Main
begin

section \<open>Data model\<close>

text \<open>
  The validators of \<^verbatim>\<open>pywps/validator/complexvalidator.py\<close> are functions
  \<^verbatim>\<open>(data_input, mode) -> bool\<close> that call into external libraries
  (\<^verbatim>\<open>mimetypes\<close>, \<^verbatim>\<open>ogr\<close>, \<^verbatim>\<open>gdal\<close>, \<^verbatim>\<open>lxml.etree\<close>, \<^verbatim>\<open>urlopen\<close>,
  \<^verbatim>\<open>json\<close>, \<^verbatim>\<open>jsonschema\<close>, \<^verbatim>\<open>zipfile\<close>). Every library call is a field of the record
  \<open>world\<close>: a function from the call's arguments to what the call does, which is to
  return a value (\<open>Inr\<close>) or to raise (\<open>Inl\<close>). A validator is then a function of the
  world, the input and the mode, and its result is the verdict or the exception that
  leaves the call.

  Python strings are \<open>string\<close>; \<^verbatim>\<open>None\<close> is \<open>None\<close> of an option type. The imports
  inside the branches and the calls of \<^verbatim>\<open>LOGGER\<close> are not modelled: the former are taken
  to succeed, the latter have no bearing on the verdict.
\<close>

datatype exn =
    ValidationError
  | SchemaError
  | RefResolutionError
  | JSONDecodeError
  | OSError
  | URLError
  | XMLSyntaxError
  | XMLSchemaParseError
  | BadZipFile
  | UnboundLocalError
  | OtherException string

text \<open>
  The exceptions of the model: \<open>ValidationError\<close>, \<open>SchemaError\<close> and
  \<open>RefResolutionError\<close> of \<^verbatim>\<open>jsonschema\<close>, \<open>JSONDecodeError\<close> of \<^verbatim>\<open>json\<close>
  (a \<^verbatim>\<open>ValueError\<close>), \<open>OSError\<close> of \<^verbatim>\<open>open\<close>, \<open>URLError\<close> of \<^verbatim>\<open>urlopen\<close>,
  the two parse errors of \<^verbatim>\<open>lxml\<close>, \<open>BadZipFile\<close> of \<^verbatim>\<open>zipfile\<close>, Python's
  \<open>UnboundLocalError\<close> and any other class by name. All of them derive from
  \<^verbatim>\<open>Exception\<close>, so \<^verbatim>\<open>except Exception\<close> catches every value of this type.
\<close>

datatype pyobj = PyObj string

text \<open>An object of an external library that the validators only pass on, by a label.\<close>

record format =
  mime_type :: "string option"
  schema :: string

record complex_input =
  file_path :: string
  stream :: pyobj
  data_format :: format
  tempdir :: string

text \<open>
  Modelled from the spec: \<^verbatim>\<open>pywps.validator.mode.MODE\<close> is imported, not defined in the
  source file. The spec gives the ordinal scale NONE=0, SIMPLE=1, STRICT=2, VERYSTRICT=3;
  the validators compare \<^verbatim>\<open>mode >= MODE.X\<close>, so a mode is an integer.
\<close>

definition MODE_NONE :: int where "MODE_NONE = 0"
definition MODE_SIMPLE :: int where "MODE_SIMPLE = 1"
definition MODE_STRICT :: int where "MODE_STRICT = 2"
definition MODE_VERYSTRICT :: int where "MODE_VERYSTRICT = 3"

text \<open>
  \<^verbatim>\<open>pywps.inout.formats.FORMATS\<close> is imported as well; the four descriptors the
  validators read are a parameter of the model.
\<close>

record formats =
  GML :: format
  GEOJSON :: format
  SHP :: format
  GEOTIFF :: format

datatype event = Extract string string | OgrOpen string

text \<open>
  What \<^verbatim>\<open>validateshapefile\<close> does to the outside, in order: \<open>Extract name dir\<close> for
  \<^verbatim>\<open>z.extract(name, dir)\<close>, \<open>OgrOpen path\<close> for \<^verbatim>\<open>ogr.Open(path)\<close>. A call that
  reads the file system takes the events so far, since its answer may depend on the
  files extracted before it.
\<close>

datatype resolver = RefResolver string pyobj "(string \<times> pyobj) list"

datatype validator = Draft4Validator pyobj resolver

record world =
  FORMATS :: formats
  module_dir :: string
  guess_type :: "string \<Rightarrow> string option \<times> string option"
  ogr_Open :: "event list \<Rightarrow> string \<Rightarrow> exn + string option"
  gdal_Open :: "string \<Rightarrow> exn + string option"
  urlopen :: "string \<Rightarrow> exn + pyobj"
  etree_parse :: "pyobj \<Rightarrow> exn + pyobj"
  etree_XMLSchema :: "pyobj \<Rightarrow> exn + pyobj"
  XMLSchema_validate :: "pyobj \<Rightarrow> pyobj \<Rightarrow> exn + bool"
  open_json_load :: "string \<Rightarrow> exn + pyobj"
  stream_read :: "pyobj \<Rightarrow> exn + string"
  json_loads :: "string \<Rightarrow> exn + pyobj"
  validator_validate :: "validator \<Rightarrow> pyobj \<Rightarrow> exn + unit"
  zipfile_ZipFile :: "string \<Rightarrow> exn + string list"
  zip_extract :: "event list \<Rightarrow> string \<Rightarrow> string \<Rightarrow> string \<Rightarrow> exn + unit"

text \<open>
  \<^item> \<open>module_dir\<close> is \<^verbatim>\<open>os.path.abspath(os.path.dirname(__file__))\<close>.
  \<^item> \<open>guess_type name\<close> is \<^verbatim>\<open>mimetypes.guess_type(name, strict=False)\<close>.
  \<^item> \<open>ogr_Open evs path\<close> is \<^verbatim>\<open>ogr.Open(path)\<close> after the events \<open>evs\<close>: \<open>Inr None\<close>
    when the library returns \<^verbatim>\<open>None\<close>, \<open>Inr (Some d)\<close> when it returns a data source whose
    \<^verbatim>\<open>GetDriver().GetName()\<close> is \<open>d\<close>. A data source that is returned is taken to be
    true in \<^verbatim>\<open>if data_source:\<close>. \<open>gdal_Open\<close> is the same for \<^verbatim>\<open>gdal.Open\<close> and
    \<^verbatim>\<open>GetDriver().ShortName\<close>.
  \<^item> \<open>open_json_load path\<close> is \<^verbatim>\<open>with open(path) as fh: json.load(fh)\<close>.
  \<^item> \<open>stream_read s\<close> is \<^verbatim>\<open>s.read()\<close>; \<open>validator_validate v doc\<close> is
    \<^verbatim>\<open>v.validate(doc)\<close>, which returns nothing or raises.
  \<^item> \<^verbatim>\<open>jsonschema.RefResolver(...)\<close> and \<^verbatim>\<open>jsonschema.Draft4Validator(...)\<close> build
    objects from their arguments; they are the constructors of \<open>resolver\<close> and
    \<open>validator\<close> and are taken not to raise.
  \<^item> \<open>zipfile_ZipFile path\<close> is \<^verbatim>\<open>zipfile.ZipFile(path)\<close>, given by its
    \<^verbatim>\<open>namelist()\<close>; \<open>zip_extract evs path name dir\<close> is \<^verbatim>\<open>z.extract(name, dir)\<close> on
    the archive opened from \<open>path\<close>, after the events \<open>evs\<close>.
\<close>

section \<open>Sequencing calls that may raise\<close>

fun bind :: "exn + 'a \<Rightarrow> ('a \<Rightarrow> exn + 'b) \<Rightarrow> exn + 'b" where
  "bind (Inl e) f = Inl e"
| "bind (Inr x) f = f x"

section \<open>Path and string functions of the standard library\<close>

text \<open>
  \<^verbatim>\<open>posixpath.join\<close>, for two components and folded from the left for more, as the
  library's loop over the components does.
\<close>

definition os_path_join :: "string \<Rightarrow> string \<Rightarrow> string" where
  "os_path_join a b =
     (if b \<noteq> [] \<and> hd b = CHR ''/'' then b
      else if a = [] \<or> last a = CHR ''/'' then a @ b
      else a @ ''/'' @ b)"

text \<open>
  \<^verbatim>\<open>str.rfind\<close> for a single character: the highest index, or \<open>-1\<close>. The recursion
  goes over the string from the left and keeps the last hit.
\<close>

fun rfind_from :: "char \<Rightarrow> string \<Rightarrow> int \<Rightarrow> int \<Rightarrow> int" where
  "rfind_from c [] i found = found"
| "rfind_from c (x # xs) i found = rfind_from c xs (i + 1) (if x = c then i else found)"

definition rfind :: "string \<Rightarrow> char \<Rightarrow> int" where
  "rfind p c = rfind_from c p 0 (-1)"

text \<open>
  \<^verbatim>\<open>genericpath._splitext(p, '/', None, '.')\<close>: the extension starts at the last dot
  after the last slash, unless only dots stand between that slash and that dot. The
  \<^verbatim>\<open>while\<close> loop that skips the leading dots is \<open>skip_dots\<close>, which answers whether
  the loop returns the split.
\<close>

function skip_dots :: "string \<Rightarrow> int \<Rightarrow> int \<Rightarrow> bool" where
  "skip_dots p filenameIndex dotIndex =
     (if filenameIndex < dotIndex then
        (if 0 \<le> filenameIndex \<and> p ! nat filenameIndex \<noteq> CHR ''.'' then True
         else skip_dots p (filenameIndex + 1) dotIndex)
      else False)"
  by pat_completeness auto
termination
  by (relation "measure (\<lambda>(p, i, d). nat (d - i))") auto

declare skip_dots.simps [simp del]

definition splitext :: "string \<Rightarrow> string \<times> string" where
  "splitext p =
     (let sepIndex = rfind p CHR ''/'';
          dotIndex = rfind p CHR ''.''
      in if dotIndex > sepIndex \<and> skip_dots p (sepIndex + 1) dotIndex
         then (take (nat dotIndex) p, drop (nat dotIndex) p)
         else (p, []))"

text \<open>
  \<^verbatim>\<open>str.lower\<close> on the ASCII letters. No other character lowers to one of
  \<^verbatim>\<open>.\<close>, \<^verbatim>\<open>s\<close>, \<^verbatim>\<open>h\<close>, \<^verbatim>\<open>p\<close>, so the comparison with \<^verbatim>\<open>'.shp'\<close> is the source's.
\<close>

definition lower_char :: "char \<Rightarrow> char" where
  "lower_char c =
     (if 65 \<le> (of_char c :: nat) \<and> (of_char c :: nat) \<le> 90
      then char_of ((of_char c :: nat) + 32) else c)"

definition lower :: "string \<Rightarrow> string" where
  "lower s = map lower_char s"

definition is_shp :: "string \<Rightarrow> bool" where
  "is_shp name = (lower (snd (splitext name)) = ''.shp'')"

section \<open>The validators\<close>

subsection \<open>validategml\<close>

text \<open>Lines 48 to 50: the block under \<^verbatim>\<open>if mode >= MODE.SIMPLE\<close>.\<close>

definition gml_simple :: "world \<Rightarrow> complex_input \<Rightarrow> bool" where
  "gml_simple w data_input =
     (let name = file_path data_input;
          (mtype, encoding) = guess_type w name
      in mime_type (data_format data_input) \<in> {mtype, mime_type (GML (FORMATS w))})"

text \<open>Lines 54 to 59: the block under \<^verbatim>\<open>if mode >= MODE.STRICT\<close>.\<close>

definition gml_strict :: "world \<Rightarrow> complex_input \<Rightarrow> exn + bool" where
  "gml_strict w data_input =
     bind (ogr_Open w [] (file_path data_input)) (\<lambda>data_source.
       case data_source of
         Some driver_name \<Rightarrow> Inr (driver_name = ''GML'')
       | None \<Rightarrow> Inr False)"

text \<open>Lines 72 to 75: the body of the \<^verbatim>\<open>try\<close>.\<close>

definition gml_try_body :: "world \<Rightarrow> complex_input \<Rightarrow> exn + bool" where
  "gml_try_body w data_input =
     (let schema_url = schema (data_format data_input)
      in bind (urlopen w schema_url) (\<lambda>response.
         bind (etree_parse w response) (\<lambda>gmlschema_doc.
         bind (etree_XMLSchema w gmlschema_doc) (\<lambda>gmlschema.
         bind (etree_parse w (stream data_input)) (\<lambda>doc.
           XMLSchema_validate w gmlschema doc)))))"

text \<open>Lines 71 to 78: \<^verbatim>\<open>except Exception\<close> turns every exception into \<open>False\<close>.\<close>

definition gml_verystrict :: "world \<Rightarrow> complex_input \<Rightarrow> exn + bool" where
  "gml_verystrict w data_input =
     (case gml_try_body w data_input of
        Inr passed \<Rightarrow> Inr passed
      | Inl e \<Rightarrow> Inr False)"

definition validategml :: "world \<Rightarrow> complex_input \<Rightarrow> int \<Rightarrow> exn + bool" where
  "validategml w data_input mode =
     (let passed = False;
          passed = (if mode \<ge> MODE_NONE then True else passed);
          passed = (if mode \<ge> MODE_SIMPLE then gml_simple w data_input else passed)
      in bind (if mode \<ge> MODE_STRICT then gml_strict w data_input else Inr passed) (\<lambda>passed.
         bind (if mode \<ge> MODE_VERYSTRICT then gml_verystrict w data_input else Inr passed) (\<lambda>passed.
           Inr passed)))"

subsection \<open>validategeojson\<close>

definition geojson_simple :: "world \<Rightarrow> complex_input \<Rightarrow> bool" where
  "geojson_simple w data_input =
     (let name = file_path data_input;
          (mtype, encoding) = guess_type w name
      in mime_type (data_format data_input) \<in> {mtype, mime_type (GEOJSON (FORMATS w))})"

definition geojson_strict :: "world \<Rightarrow> complex_input \<Rightarrow> exn + bool" where
  "geojson_strict w data_input =
     bind (ogr_Open w [] (file_path data_input)) (\<lambda>data_source.
       case data_source of
         Some driver_name \<Rightarrow> Inr (driver_name = ''GeoJSON'')
       | None \<Rightarrow> Inr False)"

text \<open>Lines 231 to 241.\<close>

definition get_schemas_home :: "world \<Rightarrow> string" where
  "get_schemas_home w = os_path_join (os_path_join (module_dir w) ''..'') ''schemas''"

text \<open>Lines 155 and 156: the body of the \<^verbatim>\<open>try\<close>.\<close>

definition geojson_try_body :: "world \<Rightarrow> complex_input \<Rightarrow> validator \<Rightarrow> exn + bool" where
  "geojson_try_body w data_input validator =
     bind (stream_read w (stream data_input)) (\<lambda>text.
     bind (json_loads w text) (\<lambda>doc.
     bind (validator_validate w validator doc) (\<lambda>_.
       Inr True)))"

text \<open>
  Lines 128 to 158. The four schema files are read before the \<^verbatim>\<open>try\<close>; the
  \<^verbatim>\<open>except\<close> clause names \<^verbatim>\<open>jsonschema.ValidationError\<close> only, so any other
  exception of the body leaves the function.
\<close>

definition geojson_verystrict :: "world \<Rightarrow> complex_input \<Rightarrow> exn + bool" where
  "geojson_verystrict w data_input =
     (let schema_home = os_path_join (get_schemas_home w) ''geojson'';
          base_schema = os_path_join schema_home ''geojson.json''
      in bind (open_json_load w base_schema) (\<lambda>geojson_base.
         bind (open_json_load w (os_path_join schema_home ''crs.json'')) (\<lambda>crs_json.
         bind (open_json_load w (os_path_join schema_home ''bbox.json'')) (\<lambda>bbox_json.
         bind (open_json_load w (os_path_join schema_home ''geometry.json'')) (\<lambda>geometry_json.
           let cached_json =
                 [(''http://json-schema.org/geojson/crs.json'', crs_json),
                  (''http://json-schema.org/geojson/bbox.json'', bbox_json),
                  (''http://json-schema.org/geojson/geometry.json'', geometry_json)];
               resolver = RefResolver ''http://json-schema.org/geojson/geojson.json''
                            geojson_base cached_json;
               validator = Draft4Validator geojson_base resolver
           in case geojson_try_body w data_input validator of
                Inr passed \<Rightarrow> Inr passed
              | Inl e \<Rightarrow> (if e = ValidationError then Inr False else Inl e))))))"

definition validategeojson :: "world \<Rightarrow> complex_input \<Rightarrow> int \<Rightarrow> exn + bool" where
  "validategeojson w data_input mode =
     (let passed = False;
          passed = (if mode \<ge> MODE_NONE then True else passed);
          passed = (if mode \<ge> MODE_SIMPLE then geojson_simple w data_input else passed)
      in bind (if mode \<ge> MODE_STRICT then geojson_strict w data_input else Inr passed) (\<lambda>passed.
         bind (if mode \<ge> MODE_VERYSTRICT then geojson_verystrict w data_input else Inr passed) (\<lambda>passed.
           Inr passed)))"

subsection \<open>validateshapefile\<close>

definition shp_simple :: "world \<Rightarrow> complex_input \<Rightarrow> bool" where
  "shp_simple w data_input =
     (let name = file_path data_input;
          (mtype, encoding) = guess_type w name
      in mime_type (data_format data_input) \<in> {mtype, mime_type (SHP (FORMATS w))})"

text \<open>
  Lines 187 to 190: the loop over \<^verbatim>\<open>z.namelist()\<close>, with the local \<^verbatim>\<open>shape_name\<close>
  and the events so far as accumulators. An exception of \<^verbatim>\<open>z.extract\<close> ends the loop
  and the function; the members extracted before it stay extracted.
\<close>

fun extract_loop ::
  "world \<Rightarrow> string \<Rightarrow> string \<Rightarrow> string list \<Rightarrow> string option \<Rightarrow> event list
     \<Rightarrow> (exn + string option) \<times> event list" where
  "extract_loop w zpath dir [] shape_name evs = (Inr shape_name, evs)"
| "extract_loop w zpath dir (name # names) shape_name evs =
     (case zip_extract w evs zpath name dir of
        Inl e \<Rightarrow> (Inl e, evs)
      | Inr _ \<Rightarrow>
          extract_loop w zpath dir names
            (if is_shp name then Some name else shape_name)
            (evs @ [Extract name dir]))"

text \<open>
  Lines 182 to 198. The local \<^verbatim>\<open>data_source\<close> is assigned only under
  \<^verbatim>\<open>if shape_name:\<close>, so it is an option: \<open>None\<close> is the unassigned local, and reading
  it in \<^verbatim>\<open>if data_source:\<close> raises \<^verbatim>\<open>UnboundLocalError\<close>. A name with extension
  \<^verbatim>\<open>.shp\<close> is not empty, so \<^verbatim>\<open>if shape_name:\<close> asks whether a name was stored.
\<close>

definition shp_strict :: "world \<Rightarrow> complex_input \<Rightarrow> (exn + bool) \<times> event list" where
  "shp_strict w data_input =
     (case zipfile_ZipFile w (file_path data_input) of
        Inl e \<Rightarrow> (Inl e, [])
      | Inr namelist \<Rightarrow>
         (case extract_loop w (file_path data_input) (tempdir data_input) namelist None [] of
            (Inl e, evs) \<Rightarrow> (Inl e, evs)
          | (Inr shape_name, evs) \<Rightarrow>
             (case (case shape_name of
                      Some name \<Rightarrow>
                        (let path = os_path_join (tempdir data_input) name
                         in (bind (ogr_Open w evs path) (\<lambda>ds. Inr (Some ds)),
                             evs @ [OgrOpen path]))
                    | None \<Rightarrow> (Inr None, evs)) of
                (Inl e, evs') \<Rightarrow> (Inl e, evs')
              | (Inr data_source, evs') \<Rightarrow>
                 (case data_source of
                    None \<Rightarrow> (Inl UnboundLocalError, evs')
                  | Some None \<Rightarrow> (Inr False, evs')
                  | Some (Some driver_name) \<Rightarrow>
                      (Inr (driver_name = ''ESRI Shapefile''), evs')))))"

definition validateshapefile ::
  "world \<Rightarrow> complex_input \<Rightarrow> int \<Rightarrow> (exn + bool) \<times> event list" where
  "validateshapefile w data_input mode =
     (let passed = False;
          passed = (if mode \<ge> MODE_NONE then True else passed);
          passed = (if mode \<ge> MODE_SIMPLE then shp_simple w data_input else passed)
      in if mode \<ge> MODE_STRICT then shp_strict w data_input else (Inr passed, []))"

subsection \<open>validategeotiff\<close>

definition geotiff_simple :: "world \<Rightarrow> complex_input \<Rightarrow> bool" where
  "geotiff_simple w data_input =
     (let name = file_path data_input;
          (mtype, encoding) = guess_type w name
      in mime_type (data_format data_input) \<in> {mtype, mime_type (GEOTIFF (FORMATS w))})"

definition geotiff_strict :: "world \<Rightarrow> complex_input \<Rightarrow> exn + bool" where
  "geotiff_strict w data_input =
     bind (gdal_Open w (file_path data_input)) (\<lambda>data_source.
       case data_source of
         Some short_name \<Rightarrow> Inr (short_name = ''GTiff'')
       | None \<Rightarrow> Inr False)"

definition validategeotiff :: "world \<Rightarrow> complex_input \<Rightarrow> int \<Rightarrow> exn + bool" where
  "validategeotiff w data_input mode =
     (let passed = False;
          passed = (if mode \<ge> MODE_NONE then True else passed);
          passed = (if mode \<ge> MODE_SIMPLE then geotiff_simple w data_input else passed)
      in bind (if mode \<ge> MODE_STRICT then geotiff_strict w data_input else Inr passed) (\<lambda>passed.
           Inr passed))"

section \<open>Concrete worlds and inputs\<close>

text \<open>
  The path of a bundled schema file, as lines 128 to 141 build it.
\<close>

abbreviation geojson_schema_file :: "world \<Rightarrow> string \<Rightarrow> string" where
  "geojson_schema_file w name \<equiv>
     os_path_join (os_path_join (get_schemas_home w) ''geojson'') name"

text \<open>
  A registry and a world to evaluate the validators on. In \<open>base_world\<close> no file name
  has a known type, no library recognises any file, the schema URL cannot be fetched,
  the bundled schema files load, every document validates, no file is an archive and
  every extraction succeeds. The other worlds change single answers.
\<close>

definition example_formats :: formats where
  "example_formats =
     \<lparr>GML = \<lparr>mime_type = Some ''application/gml+xml'',
              schema = ''http://schemas.opengis.net/gml/3.1.1/base/feature.xsd''\<rparr>,
      GEOJSON = \<lparr>mime_type = Some ''application/vnd.geo+json'', schema = []\<rparr>,
      SHP = \<lparr>mime_type = Some ''application/x-zipped-shp'', schema = []\<rparr>,
      GEOTIFF = \<lparr>mime_type = Some ''image/tiff; subtype=geotiff'', schema = []\<rparr>\<rparr>"

definition base_world :: world where
  "base_world =
     \<lparr>FORMATS = example_formats,
      module_dir = ''/srv/pywps/validator'',
      guess_type = (\<lambda>name. (None, None)),
      ogr_Open = (\<lambda>evs path. Inr None),
      gdal_Open = (\<lambda>path. Inr None),
      urlopen = (\<lambda>url. Inl URLError),
      etree_parse = (\<lambda>source. Inl XMLSyntaxError),
      etree_XMLSchema = (\<lambda>doc. Inl XMLSchemaParseError),
      XMLSchema_validate = (\<lambda>gmlschema doc. Inr False),
      open_json_load = (\<lambda>path. Inr (PyObj path)),
      stream_read = (\<lambda>s. Inr ''{}''),
      json_loads = (\<lambda>text. Inr (PyObj text)),
      validator_validate = (\<lambda>v doc. Inr ()),
      zipfile_ZipFile = (\<lambda>path. Inl BadZipFile),
      zip_extract = (\<lambda>evs zpath name dir. Inr ())\<rparr>"

definition gml_input :: complex_input where
  "gml_input =
     \<lparr>file_path = ''/tmp/in/roads.gml'', stream = PyObj ''roads.gml'',
      data_format = GML example_formats, tempdir = ''/tmp/in/scratch''\<rparr>"

definition geojson_input :: complex_input where
  "geojson_input =
     \<lparr>file_path = ''/tmp/in/point.geojson'', stream = PyObj ''point.geojson'',
      data_format = GEOJSON example_formats, tempdir = ''/tmp/in/scratch''\<rparr>"

definition shp_input :: complex_input where
  "shp_input =
     \<lparr>file_path = ''/tmp/in/upload.zip'', stream = PyObj ''upload.zip'',
      data_format = SHP example_formats, tempdir = ''/tmp/in/scratch''\<rparr>"

definition geotiff_input :: complex_input where
  "geotiff_input =
     \<lparr>file_path = ''/tmp/in/scan.tif'', stream = PyObj ''scan.tif'',
      data_format = GEOTIFF example_formats, tempdir = ''/tmp/in/scratch''\<rparr>"

text \<open>An input that declares no MIME type.\<close>

definition untyped_input :: complex_input where
  "untyped_input =
     \<lparr>file_path = ''/tmp/in/blob'', stream = PyObj ''blob'',
      data_format = \<lparr>mime_type = None, schema = []\<rparr>, tempdir = ''/tmp/in/scratch''\<rparr>"

text \<open>A GML document that arrives under a \<^verbatim>\<open>.txt\<close> name.\<close>

definition gml_as_txt_input :: complex_input where
  "gml_as_txt_input = gml_input\<lparr>file_path := ''/tmp/in/roads.txt''\<rparr>"

definition txt_world :: world where
  "txt_world = base_world\<lparr>guess_type := (\<lambda>name. (Some ''text/plain'', None))\<rparr>"

text \<open>A GML file declared as plain text: the vector library recognises it as GML.\<close>

definition gml_declared_txt_input :: complex_input where
  "gml_declared_txt_input =
     gml_input\<lparr>data_format := (data_format gml_input)\<lparr>mime_type := Some ''text/plain''\<rparr>\<rparr>"

definition gml_world :: world where
  "gml_world = base_world\<lparr>ogr_Open := (\<lambda>evs path. Inr (Some ''GML''))\<rparr>"

text \<open>A PNG image renamed to \<^verbatim>\<open>.tif\<close>: the raster library reports the PNG driver.\<close>

definition png_world :: world where
  "png_world = base_world\<lparr>gdal_Open := (\<lambda>path. Inr (Some ''PNG''))\<rparr>"

text \<open>The bundled schema files cannot be read.\<close>

definition missing_schemas_world :: world where
  "missing_schemas_world =
     base_world\<lparr>ogr_Open := (\<lambda>evs path. Inr (Some ''GeoJSON'')),
                open_json_load := (\<lambda>path. Inl OSError)\<rparr>"

text \<open>The document does not conform to the GeoJSON schema.\<close>

definition invalid_geojson_world :: world where
  "invalid_geojson_world =
     base_world\<lparr>ogr_Open := (\<lambda>evs path. Inr (Some ''GeoJSON'')),
                validator_validate := (\<lambda>v doc. Inl ValidationError)\<rparr>"

text \<open>The stream does not hold JSON.\<close>

definition malformed_json_world :: world where
  "malformed_json_world =
     base_world\<lparr>ogr_Open := (\<lambda>evs path. Inr (Some ''GeoJSON'')),
                stream_read := (\<lambda>s. Inr ''{''),
                json_loads := (\<lambda>text. Inl JSONDecodeError)\<rparr>"

text \<open>An archive with no \<^verbatim>\<open>.shp\<close> member, and one with two of them.\<close>

definition no_shp_world :: world where
  "no_shp_world =
     base_world\<lparr>zipfile_ZipFile := (\<lambda>path. Inr [''readme.txt'', ''roads.dbf''])\<rparr>"

definition two_shp_world :: world where
  "two_shp_world =
     base_world\<lparr>zipfile_ZipFile := (\<lambda>path. Inr [''a.shp'', ''a.dbf'', ''b.SHP'']),
                ogr_Open := (\<lambda>evs path.
                  if path = ''/tmp/in/scratch/b.SHP'' then Inr (Some ''ESRI Shapefile'')
                  else Inr None)\<rparr>"

text \<open>
  A world that answers as \<open>gml_world\<close> does to every call that the validation of
  \<open>gml_input\<close> makes, and differs from it on another file name, another path and
  another URL.
\<close>

definition gml_world_later :: world where
  "gml_world_later =
     gml_world\<lparr>guess_type := (\<lambda>name. if name = ''/tmp/in/other.txt''
                                 then (Some ''text/plain'', None) else (None, None)),
               ogr_Open := (\<lambda>evs path. if path = ''/tmp/in/other.gml''
                                 then Inr None else Inr (Some ''GML'')),
               urlopen := (\<lambda>url. if url = ''http://example.org/other.xsd''
                                 then Inr (PyObj ''other.xsd'') else Inl URLError)\<rparr>"

text \<open>The schema can be fetched and the document conforms to it; no driver opens the file.\<close>

definition schema_valid_world :: world where
  "schema_valid_world =
     base_world\<lparr>urlopen := (\<lambda>url. Inr (PyObj url)),
                etree_parse := (\<lambda>source. Inr source),
                etree_XMLSchema := (\<lambda>doc. Inr doc),
                XMLSchema_validate := (\<lambda>gmlschema doc. Inr True)\<rparr>"

text \<open>A GeoJSON document declared as plain text.\<close>

definition geojson_declared_txt_input :: complex_input where
  "geojson_declared_txt_input =
     geojson_input\<lparr>data_format := (data_format geojson_input)\<lparr>mime_type := Some ''text/plain''\<rparr>\<rparr>"

text \<open>
  An archive with two \<^verbatim>\<open>.shp\<close> members, in a world where a path opens as a shapefile
  only once the member has been extracted to it; and the events of a validation of it.
\<close>

definition unpacking_world :: world where
  "unpacking_world =
     base_world\<lparr>zipfile_ZipFile := (\<lambda>path. Inr [''a.shp'', ''a.dbf'', ''b.SHP'']),
                ogr_Open := (\<lambda>evs path.
                  if path = ''/tmp/in/scratch/b.SHP''
                     \<and> Extract ''b.SHP'' ''/tmp/in/scratch'' \<in> set evs
                  then Inr (Some ''ESRI Shapefile'')
                  else Inr None)\<rparr>"

definition first_call_events :: "event list" where
  "first_call_events =
     [Extract ''a.shp'' ''/tmp/in/scratch'', Extract ''a.dbf'' ''/tmp/in/scratch'',
      Extract ''b.SHP'' ''/tmp/in/scratch'', OgrOpen ''/tmp/in/scratch/b.SHP'']"

section \<open>Two calls and the answers they get\<close>

text \<open>
  A second call of a validator finds the outside as the first call left it.
  \<open>later_world done w\<close> is the world \<open>w\<close> after the events \<open>done\<close>: a library that
  reads the file system sees these events before the events of the call that asks.
\<close>

definition later_world :: "event list \<Rightarrow> world \<Rightarrow> world" where
  "later_world done w =
     w\<lparr>ogr_Open := (\<lambda>evs. ogr_Open w (done @ evs)),
       zip_extract := (\<lambda>evs. zip_extract w (done @ evs))\<rparr>"

text \<open>
  What it means that the collaborators return the same answers in two worlds, for a
  validator, an input and a mode: every call that the validator makes in the first
  world, with the arguments it makes it with, has the same answer in the second. A
  call is made only if the calls before it returned as the code needs, so the
  conditions follow the control flow of the source: nothing is asked of a call behind
  a raised exception or behind a mode guard that is false. The registry entry and the
  module directory that the validator reads are the same in both.
\<close>

definition gml_try_same_answers :: "world \<Rightarrow> world \<Rightarrow> complex_input \<Rightarrow> bool" where
  "gml_try_same_answers w1 w2 data_input =
     (let schema_url = schema (data_format data_input)
      in urlopen w1 schema_url = urlopen w2 schema_url \<and>
         (case urlopen w1 schema_url of
            Inl e \<Rightarrow> True
          | Inr response \<Rightarrow>
              etree_parse w1 response = etree_parse w2 response \<and>
              (case etree_parse w1 response of
                 Inl e \<Rightarrow> True
               | Inr gmlschema_doc \<Rightarrow>
                   etree_XMLSchema w1 gmlschema_doc = etree_XMLSchema w2 gmlschema_doc \<and>
                   (case etree_XMLSchema w1 gmlschema_doc of
                      Inl e \<Rightarrow> True
                    | Inr gmlschema \<Rightarrow>
                        etree_parse w1 (stream data_input) = etree_parse w2 (stream data_input) \<and>
                        (case etree_parse w1 (stream data_input) of
                           Inl e \<Rightarrow> True
                         | Inr doc \<Rightarrow>
                             XMLSchema_validate w1 gmlschema doc
                               = XMLSchema_validate w2 gmlschema doc)))))"

definition gml_same_answers :: "world \<Rightarrow> world \<Rightarrow> complex_input \<Rightarrow> int \<Rightarrow> bool" where
  "gml_same_answers w1 w2 data_input mode =
     ((if mode \<ge> MODE_SIMPLE
       then guess_type w1 (file_path data_input) = guess_type w2 (file_path data_input)
            \<and> mime_type (GML (FORMATS w1)) = mime_type (GML (FORMATS w2))
       else True) \<and>
      (if mode \<ge> MODE_STRICT
       then ogr_Open w1 [] (file_path data_input) = ogr_Open w2 [] (file_path data_input)
       else True) \<and>
      (if mode \<ge> MODE_VERYSTRICT
       then (case ogr_Open w1 [] (file_path data_input) of
               Inl e \<Rightarrow> True
             | Inr data_source \<Rightarrow> gml_try_same_answers w1 w2 data_input)
       else True))"

definition geojson_try_same_answers ::
  "world \<Rightarrow> world \<Rightarrow> complex_input \<Rightarrow> validator \<Rightarrow> bool" where
  "geojson_try_same_answers w1 w2 data_input validator =
     (stream_read w1 (stream data_input) = stream_read w2 (stream data_input) \<and>
      (case stream_read w1 (stream data_input) of
         Inl e \<Rightarrow> True
       | Inr json_text \<Rightarrow>
           json_loads w1 json_text = json_loads w2 json_text \<and>
           (case json_loads w1 json_text of
              Inl e \<Rightarrow> True
            | Inr doc \<Rightarrow>
                validator_validate w1 validator doc = validator_validate w2 validator doc)))"

definition geojson_verystrict_same_answers :: "world \<Rightarrow> world \<Rightarrow> complex_input \<Rightarrow> bool" where
  "geojson_verystrict_same_answers w1 w2 data_input =
     (module_dir w1 = module_dir w2 \<and>
      open_json_load w1 (geojson_schema_file w1 ''geojson.json'')
        = open_json_load w2 (geojson_schema_file w1 ''geojson.json'') \<and>
      (case open_json_load w1 (geojson_schema_file w1 ''geojson.json'') of
         Inl e \<Rightarrow> True
       | Inr geojson_base \<Rightarrow>
          open_json_load w1 (geojson_schema_file w1 ''crs.json'')
            = open_json_load w2 (geojson_schema_file w1 ''crs.json'') \<and>
          (case open_json_load w1 (geojson_schema_file w1 ''crs.json'') of
             Inl e \<Rightarrow> True
           | Inr crs_json \<Rightarrow>
              open_json_load w1 (geojson_schema_file w1 ''bbox.json'')
                = open_json_load w2 (geojson_schema_file w1 ''bbox.json'') \<and>
              (case open_json_load w1 (geojson_schema_file w1 ''bbox.json'') of
                 Inl e \<Rightarrow> True
               | Inr bbox_json \<Rightarrow>
                  open_json_load w1 (geojson_schema_file w1 ''geometry.json'')
                    = open_json_load w2 (geojson_schema_file w1 ''geometry.json'') \<and>
                  (case open_json_load w1 (geojson_schema_file w1 ''geometry.json'') of
                     Inl e \<Rightarrow> True
                   | Inr geometry_json \<Rightarrow>
                      geojson_try_same_answers w1 w2 data_input
                        (Draft4Validator geojson_base
                           (RefResolver ''http://json-schema.org/geojson/geojson.json''
                              geojson_base
                              [(''http://json-schema.org/geojson/crs.json'', crs_json),
                               (''http://json-schema.org/geojson/bbox.json'', bbox_json),
                               (''http://json-schema.org/geojson/geometry.json'',
                                geometry_json)])))))))"

definition geojson_same_answers :: "world \<Rightarrow> world \<Rightarrow> complex_input \<Rightarrow> int \<Rightarrow> bool" where
  "geojson_same_answers w1 w2 data_input mode =
     ((if mode \<ge> MODE_SIMPLE
       then guess_type w1 (file_path data_input) = guess_type w2 (file_path data_input)
            \<and> mime_type (GEOJSON (FORMATS w1)) = mime_type (GEOJSON (FORMATS w2))
       else True) \<and>
      (if mode \<ge> MODE_STRICT
       then ogr_Open w1 [] (file_path data_input) = ogr_Open w2 [] (file_path data_input)
       else True) \<and>
      (if mode \<ge> MODE_VERYSTRICT
       then (case ogr_Open w1 [] (file_path data_input) of
               Inl e \<Rightarrow> True
             | Inr data_source \<Rightarrow> geojson_verystrict_same_answers w1 w2 data_input)
       else True))"

text \<open>
  The calls of the loop of lines 187 to 190: each extraction, after the events of the
  extractions before it, as long as these returned.
\<close>

fun extract_same_answers ::
  "world \<Rightarrow> world \<Rightarrow> string \<Rightarrow> string \<Rightarrow> string list \<Rightarrow> event list \<Rightarrow> bool" where
  "extract_same_answers w1 w2 zpath dir [] evs = True"
| "extract_same_answers w1 w2 zpath dir (name # names) evs =
     (zip_extract w1 evs zpath name dir = zip_extract w2 evs zpath name dir \<and>
      (case zip_extract w1 evs zpath name dir of
         Inl e \<Rightarrow> True
       | Inr _ \<Rightarrow> extract_same_answers w1 w2 zpath dir names (evs @ [Extract name dir])))"

text \<open>
  The archive is opened, its members are extracted, and the path of the last
  \<^verbatim>\<open>.shp\<close> member is opened if the loop ended with one.
\<close>

definition shp_strict_same_answers :: "world \<Rightarrow> world \<Rightarrow> complex_input \<Rightarrow> bool" where
  "shp_strict_same_answers w1 w2 data_input =
     (zipfile_ZipFile w1 (file_path data_input) = zipfile_ZipFile w2 (file_path data_input) \<and>
      (case zipfile_ZipFile w1 (file_path data_input) of
         Inl e \<Rightarrow> True
       | Inr namelist \<Rightarrow>
          extract_same_answers w1 w2 (file_path data_input) (tempdir data_input) namelist [] \<and>
          (case extract_loop w1 (file_path data_input) (tempdir data_input) namelist None [] of
             (Inr (Some name), evs) \<Rightarrow>
               ogr_Open w1 evs (os_path_join (tempdir data_input) name)
                 = ogr_Open w2 evs (os_path_join (tempdir data_input) name)
           | _ \<Rightarrow> True)))"

definition shp_same_answers :: "world \<Rightarrow> world \<Rightarrow> complex_input \<Rightarrow> int \<Rightarrow> bool" where
  "shp_same_answers w1 w2 data_input mode =
     ((if mode \<ge> MODE_SIMPLE
       then guess_type w1 (file_path data_input) = guess_type w2 (file_path data_input)
            \<and> mime_type (SHP (FORMATS w1)) = mime_type (SHP (FORMATS w2))
       else True) \<and>
      (if mode \<ge> MODE_STRICT then shp_strict_same_answers w1 w2 data_input else True))"

definition geotiff_same_answers :: "world \<Rightarrow> world \<Rightarrow> complex_input \<Rightarrow> int \<Rightarrow> bool" where
  "geotiff_same_answers w1 w2 data_input mode =
     ((if mode \<ge> MODE_SIMPLE
       then guess_type w1 (file_path data_input) = guess_type w2 (file_path data_input)
            \<and> mime_type (GEOTIFF (FORMATS w1)) = mime_type (GEOTIFF (FORMATS w2))
       else True) \<and>
      (if mode \<ge> MODE_STRICT
       then gdal_Open w1 (file_path data_input) = gdal_Open w2 (file_path data_input)
       else True))"

section \<open>Auxiliary facts\<close>

lemmas mode_defs = MODE_NONE_def MODE_SIMPLE_def MODE_STRICT_def MODE_VERYSTRICT_def

lemmas validator_defs =
  validategml_def validategeojson_def validateshapefile_def validategeotiff_def

lemmas simple_defs = gml_simple_def geojson_simple_def shp_simple_def geotiff_simple_def

lemma bind_Inr [simp]: "bind m Inr = m"
  by (cases m) simp_all

text \<open>The loop does not read what the SIMPLE check reads.\<close>

lemma extract_loop_ignores_simple_inputs:
  "extract_loop (w\<lparr>guess_type := g, FORMATS := F\<rparr>) zpath dir names shape_name evs
     = extract_loop w zpath dir names shape_name evs"
  by (induction names arbitrary: shape_name evs) (simp_all split: sum.split)

lemma shp_strict_ignores_simple_inputs:
  "shp_strict (w\<lparr>guess_type := g, FORMATS := F\<rparr>) (data_input\<lparr>data_format := f\<rparr>)
     = shp_strict w data_input"
  by (simp add: shp_strict_def extract_loop_ignores_simple_inputs Let_def
      split: sum.split prod.split option.split)

text \<open>
  When every extraction succeeds, the loop extracts all members in order and leaves in
  \<^verbatim>\<open>shape_name\<close> the last member with extension \<^verbatim>\<open>.shp\<close>, if there is one.
\<close>

lemma extract_loop_all_succeed:
  "\<forall>i<length names.
      zip_extract w (evs @ map (\<lambda>n. Extract n dir) (take i names)) zpath (names ! i) dir = Inr ()
   \<Longrightarrow> extract_loop w zpath dir names shape_name evs =
       (Inr (if filter is_shp names = [] then shape_name else Some (last (filter is_shp names))),
        evs @ map (\<lambda>n. Extract n dir) names)"
proof (induction names arbitrary: shape_name evs)
  case Nil
  then show ?case by simp
next
  case (Cons name names)
  from Cons.prems have first: "zip_extract w evs zpath name dir = Inr ()"
    by fastforce
  have rest: "\<forall>i<length names.
      zip_extract w ((evs @ [Extract name dir]) @ map (\<lambda>n. Extract n dir) (take i names))
        zpath (names ! i) dir = Inr ()"
  proof (intro allI impI)
    fix i assume "i < length names"
    then have "Suc i < length (name # names)" by simp
    with Cons.prems
    have "zip_extract w (evs @ map (\<lambda>n. Extract n dir) (take (Suc i) (name # names)))
            zpath ((name # names) ! Suc i) dir = Inr ()"
      by blast
    then show "zip_extract w ((evs @ [Extract name dir]) @ map (\<lambda>n. Extract n dir) (take i names))
        zpath (names ! i) dir = Inr ()"
      by simp
  qed
  show ?case
    using first Cons.IH [OF rest] by simp
qed

text \<open>
  Each block returns the same in two worlds that answer its calls alike.
\<close>

lemma gml_try_body_same:
  "gml_try_same_answers w1 w2 data_input \<Longrightarrow>
   gml_try_body w1 data_input = gml_try_body w2 data_input"
  by (auto simp: gml_try_same_answers_def gml_try_body_def Let_def split: sum.splits)

lemma geojson_try_body_same:
  "geojson_try_same_answers w1 w2 data_input v \<Longrightarrow>
   geojson_try_body w1 data_input v = geojson_try_body w2 data_input v"
  by (auto simp: geojson_try_same_answers_def geojson_try_body_def split: sum.splits)

lemma geojson_verystrict_same:
  "geojson_verystrict_same_answers w1 w2 data_input \<Longrightarrow>
   geojson_verystrict w1 data_input = geojson_verystrict w2 data_input"
proof -
  assume same: "geojson_verystrict_same_answers w1 w2 data_input"
  then have "module_dir w1 = module_dir w2"
    by (simp add: geojson_verystrict_same_answers_def)
  then have home: "get_schemas_home w2 = get_schemas_home w1"
    by (simp add: get_schemas_home_def)
  show ?thesis
    using same
    by (auto simp: geojson_verystrict_same_answers_def geojson_verystrict_def home Let_def
        split: sum.splits dest!: geojson_try_body_same)
qed

lemma extract_loop_same:
  "extract_same_answers w1 w2 zpath dir names evs \<Longrightarrow>
   extract_loop w1 zpath dir names shape_name evs = extract_loop w2 zpath dir names shape_name evs"
  by (induction names arbitrary: shape_name evs) (auto split: sum.splits)

lemma shp_strict_same:
  "shp_strict_same_answers w1 w2 data_input \<Longrightarrow>
   shp_strict w1 data_input = shp_strict w2 data_input"
proof -
  assume same: "shp_strict_same_answers w1 w2 data_input"
  then have zip: "zipfile_ZipFile w2 (file_path data_input)
      = zipfile_ZipFile w1 (file_path data_input)"
    by (simp add: shp_strict_same_answers_def)
  show ?thesis
  proof (cases "zipfile_ZipFile w1 (file_path data_input)")
    case (Inl e)
    then show ?thesis
      by (simp add: shp_strict_def zip)
  next
    case (Inr namelist)
    with same zip have archive: "zipfile_ZipFile w2 (file_path data_input) = Inr namelist"
      and members: "extract_same_answers w1 w2 (file_path data_input) (tempdir data_input)
                      namelist []"
      and opened: "case extract_loop w1 (file_path data_input) (tempdir data_input)
                          namelist None [] of
                     (Inr (Some name), evs) \<Rightarrow>
                       ogr_Open w1 evs (os_path_join (tempdir data_input) name)
                         = ogr_Open w2 evs (os_path_join (tempdir data_input) name)
                   | _ \<Rightarrow> True"
      by (simp_all add: shp_strict_same_answers_def)
    have loop: "extract_loop w2 (file_path data_input) (tempdir data_input) namelist None []
        = extract_loop w1 (file_path data_input) (tempdir data_input) namelist None []"
      using extract_loop_same [OF members] by simp
    show ?thesis
      using Inr archive opened
      by (auto simp: shp_strict_def loop Let_def split: prod.splits sum.splits option.splits)
  qed
qed

section \<open>Mode NONE\<close>

text \<open>
  C4: each of the four validators, called with mode NONE, returns True, whatever the
  input and whatever the libraries would answer. The shapefile validator also performs
  no extraction.
\<close>

theorem mode_none_returns_true:
  "validategml w data_input MODE_NONE = Inr True
   \<and> validategeojson w data_input MODE_NONE = Inr True
   \<and> validateshapefile w data_input MODE_NONE = (Inr True, [])
   \<and> validategeotiff w data_input MODE_NONE = Inr True"
  by (simp add: validator_defs mode_defs)

section \<open>Mode SIMPLE\<close>

text \<open>
  C5: at mode SIMPLE the verdict of each validator is True if and only if the declared
  MIME type equals the type guessed from the file name or the canonical type of the
  format. So a declared type equal to the canonical one passes whatever the file name
  is guessed to be.
\<close>

theorem simple_verdict_is_mime_match:
  "validategml w data_input MODE_SIMPLE =
     Inr (mime_type (data_format data_input) = fst (guess_type w (file_path data_input))
          \<or> mime_type (data_format data_input) = mime_type (GML (FORMATS w)))
   \<and> validategeojson w data_input MODE_SIMPLE =
     Inr (mime_type (data_format data_input) = fst (guess_type w (file_path data_input))
          \<or> mime_type (data_format data_input) = mime_type (GEOJSON (FORMATS w)))
   \<and> validateshapefile w data_input MODE_SIMPLE =
     (Inr (mime_type (data_format data_input) = fst (guess_type w (file_path data_input))
           \<or> mime_type (data_format data_input) = mime_type (SHP (FORMATS w))), [])
   \<and> validategeotiff w data_input MODE_SIMPLE =
     Inr (mime_type (data_format data_input) = fst (guess_type w (file_path data_input))
          \<or> mime_type (data_format data_input) = mime_type (GEOTIFF (FORMATS w)))"
  by (simp add: validator_defs simple_defs mode_defs split: prod.split)

text \<open>
  The scenario of the specification: a GML input whose name ends in \<^verbatim>\<open>.txt\<close>, guessed
  as \<^verbatim>\<open>text/plain\<close>, declared with the canonical GML type.
\<close>

theorem simple_verdict_is_mime_match_witness:
  "validategml txt_world gml_as_txt_input MODE_SIMPLE = Inr True"
  using simple_verdict_is_mime_match [of txt_world gml_as_txt_input]
  by (simp add: txt_world_def base_world_def gml_as_txt_input_def gml_input_def
      example_formats_def)

text \<open>
  C9: at mode SIMPLE, an input that declares no MIME type and whose file name yields no
  guessed type passes, in each of the four validators: the absent declared type equals
  the absent guessed type.
\<close>

theorem simple_passes_when_both_types_absent:
  "mime_type (data_format data_input) = None \<Longrightarrow>
   fst (guess_type w (file_path data_input)) = None \<Longrightarrow>
   validategml w data_input MODE_SIMPLE = Inr True
   \<and> validategeojson w data_input MODE_SIMPLE = Inr True
   \<and> validateshapefile w data_input MODE_SIMPLE = (Inr True, [])
   \<and> validategeotiff w data_input MODE_SIMPLE = Inr True"
  by (simp add: validator_defs simple_defs mode_defs case_prod_beta)

theorem simple_passes_when_both_types_absent_witness:
  "validategml base_world untyped_input MODE_SIMPLE = Inr True
   \<and> validategeojson base_world untyped_input MODE_SIMPLE = Inr True
   \<and> validateshapefile base_world untyped_input MODE_SIMPLE = (Inr True, [])
   \<and> validategeotiff base_world untyped_input MODE_SIMPLE = Inr True"
  using simple_passes_when_both_types_absent [of untyped_input base_world]
  by (simp add: base_world_def untyped_input_def)

section \<open>Mode STRICT\<close>

text \<open>
  C6: for validategml, validategeojson and validategeotiff at mode STRICT, when the
  library's open call returns a data source the verdict is True exactly when its driver
  name is the expected one ("GML", "GeoJSON", "GTiff"); when the open call returns
  nothing the verdict is False, and the validator returns (it does not raise).
\<close>

theorem strict_verdict_is_driver_match:
  "(ogr_Open w [] (file_path data_input) = Inr (Some driver_name) \<longrightarrow>
      validategml w data_input MODE_STRICT = Inr (driver_name = ''GML'')
      \<and> validategeojson w data_input MODE_STRICT = Inr (driver_name = ''GeoJSON''))
   \<and> (ogr_Open w [] (file_path data_input) = Inr None \<longrightarrow>
      validategml w data_input MODE_STRICT = Inr False
      \<and> validategeojson w data_input MODE_STRICT = Inr False)
   \<and> (gdal_Open w (file_path data_input) = Inr (Some short_name) \<longrightarrow>
      validategeotiff w data_input MODE_STRICT = Inr (short_name = ''GTiff''))
   \<and> (gdal_Open w (file_path data_input) = Inr None \<longrightarrow>
      validategeotiff w data_input MODE_STRICT = Inr False)"
  by (simp add: validator_defs mode_defs gml_strict_def geojson_strict_def geotiff_strict_def)

text \<open>
  A file that the vector library opens with its GML driver passes as GML and fails as
  GeoJSON; a PNG renamed to \<^verbatim>\<open>.tif\<close> fails as GeoTIFF; a file that no library opens
  fails everywhere.
\<close>

theorem strict_verdict_is_driver_match_witness:
  "validategml gml_world gml_input MODE_STRICT = Inr True
   \<and> validategeojson gml_world gml_input MODE_STRICT = Inr False
   \<and> validategeotiff png_world geotiff_input MODE_STRICT = Inr False
   \<and> validategml base_world gml_input MODE_STRICT = Inr False
   \<and> validategeojson base_world gml_input MODE_STRICT = Inr False
   \<and> validategeotiff base_world gml_input MODE_STRICT = Inr False"
  using strict_verdict_is_driver_match [of gml_world gml_input "''GML''" "''PNG''"]
    strict_verdict_is_driver_match [of png_world geotiff_input "''GML''" "''PNG''"]
    strict_verdict_is_driver_match [of base_world gml_input "''GML''" "''PNG''"]
  by (simp add: gml_world_def png_world_def base_world_def)

section \<open>Escalation\<close>

text \<open>
  C3: the verdict at a mode is the result of the highest check that ran; each level
  overwrites the verdict of the level before and is not conjoined with it.
  For each validator the verdict at SIMPLE is the SIMPLE check and the verdict at STRICT
  is the STRICT check; the verdict at STRICT does not depend on anything the SIMPLE check
  reads (the declared format, the guess from the file name and the registry can be
  replaced by any others).
  For the two schema-bearing validators the verdict at VERYSTRICT is the VERYSTRICT
  check once the STRICT block has returned (an exception of the STRICT block leaves the
  call): when the schema engine answers, the verdict of validategml is the boolean that
  \<^verbatim>\<open>gmlschema.validate\<close> returns and the verdict of validategeojson is True, whatever
  data source, or none, the STRICT block got; and the verdict at VERYSTRICT stays the same
  when the answer of \<^verbatim>\<open>ogr.Open\<close>, the declared MIME type, the guess from the file name
  and the registry are replaced by any others, as long as \<^verbatim>\<open>ogr.Open\<close> returns.
\<close>

theorem verdict_is_highest_check:
  "validategml w data_input MODE_SIMPLE = Inr (gml_simple w data_input)
   \<and> validategml w data_input MODE_STRICT = gml_strict w data_input
   \<and> validategml w data_input MODE_VERYSTRICT =
       bind (gml_strict w data_input) (\<lambda>_. gml_verystrict w data_input)
   \<and> validategeojson w data_input MODE_SIMPLE = Inr (geojson_simple w data_input)
   \<and> validategeojson w data_input MODE_STRICT = geojson_strict w data_input
   \<and> validategeojson w data_input MODE_VERYSTRICT =
       bind (geojson_strict w data_input) (\<lambda>_. geojson_verystrict w data_input)
   \<and> validateshapefile w data_input MODE_SIMPLE = (Inr (shp_simple w data_input), [])
   \<and> validateshapefile w data_input MODE_STRICT = shp_strict w data_input
   \<and> validategeotiff w data_input MODE_SIMPLE = Inr (geotiff_simple w data_input)
   \<and> validategeotiff w data_input MODE_STRICT = geotiff_strict w data_input
   \<and> validategml (w\<lparr>guess_type := g, FORMATS := F\<rparr>) (data_input\<lparr>data_format := f\<rparr>) MODE_STRICT
       = validategml w data_input MODE_STRICT
   \<and> validategeojson (w\<lparr>guess_type := g, FORMATS := F\<rparr>) (data_input\<lparr>data_format := f\<rparr>) MODE_STRICT
       = validategeojson w data_input MODE_STRICT
   \<and> validateshapefile (w\<lparr>guess_type := g, FORMATS := F\<rparr>) (data_input\<lparr>data_format := f\<rparr>) MODE_STRICT
       = validateshapefile w data_input MODE_STRICT
   \<and> validategeotiff (w\<lparr>guess_type := g, FORMATS := F\<rparr>) (data_input\<lparr>data_format := f\<rparr>) MODE_STRICT
       = validategeotiff w data_input MODE_STRICT
   \<and> (ogr_Open w [] (file_path data_input) = Inr ds
        \<and> urlopen w (schema (data_format data_input)) = Inr response
        \<and> etree_parse w response = Inr gmlschema_doc
        \<and> etree_XMLSchema w gmlschema_doc = Inr gmlschema
        \<and> etree_parse w (stream data_input) = Inr doc
        \<and> XMLSchema_validate w gmlschema doc = Inr valid \<longrightarrow>
        validategml w data_input MODE_VERYSTRICT = Inr valid)
   \<and> (ogr_Open w [] (file_path data_input) = Inr ds
        \<and> open_json_load w (geojson_schema_file w ''geojson.json'') = Inr geojson_base
        \<and> open_json_load w (geojson_schema_file w ''crs.json'') = Inr crs_json
        \<and> open_json_load w (geojson_schema_file w ''bbox.json'') = Inr bbox_json
        \<and> open_json_load w (geojson_schema_file w ''geometry.json'') = Inr geometry_json
        \<and> stream_read w (stream data_input) = Inr json_text
        \<and> json_loads w json_text = Inr document
        \<and> validator_validate w
             (Draft4Validator geojson_base
                (RefResolver ''http://json-schema.org/geojson/geojson.json'' geojson_base
                   [(''http://json-schema.org/geojson/crs.json'', crs_json),
                    (''http://json-schema.org/geojson/bbox.json'', bbox_json),
                    (''http://json-schema.org/geojson/geometry.json'', geometry_json)]))
             document = Inr () \<longrightarrow>
        validategeojson w data_input MODE_VERYSTRICT = Inr True)
   \<and> (ogr_Open w [] (file_path data_input) = Inr ds
        \<and> open' [] (file_path data_input) = Inr ds' \<longrightarrow>
        validategml (w\<lparr>guess_type := g, FORMATS := F, ogr_Open := open'\<rparr>)
            (data_input\<lparr>data_format := (data_format data_input)\<lparr>mime_type := m\<rparr>\<rparr>)
            MODE_VERYSTRICT
          = validategml w data_input MODE_VERYSTRICT
        \<and> validategeojson (w\<lparr>guess_type := g, FORMATS := F, ogr_Open := open'\<rparr>)
            (data_input\<lparr>data_format := (data_format data_input)\<lparr>mime_type := m\<rparr>\<rparr>)
            MODE_VERYSTRICT
          = validategeojson w data_input MODE_VERYSTRICT)"
proof -
  have levels:
    "validategml w data_input MODE_SIMPLE = Inr (gml_simple w data_input)"
    "validategml w data_input MODE_STRICT = gml_strict w data_input"
    "validategml w data_input MODE_VERYSTRICT =
       bind (gml_strict w data_input) (\<lambda>_. gml_verystrict w data_input)"
    "validategeojson w data_input MODE_SIMPLE = Inr (geojson_simple w data_input)"
    "validategeojson w data_input MODE_STRICT = geojson_strict w data_input"
    "validategeojson w data_input MODE_VERYSTRICT =
       bind (geojson_strict w data_input) (\<lambda>_. geojson_verystrict w data_input)"
    "validateshapefile w data_input MODE_SIMPLE = (Inr (shp_simple w data_input), [])"
    "validateshapefile w data_input MODE_STRICT = shp_strict w data_input"
    "validategeotiff w data_input MODE_SIMPLE = Inr (geotiff_simple w data_input)"
    "validategeotiff w data_input MODE_STRICT = geotiff_strict w data_input"
    by (simp_all add: validator_defs mode_defs)
  have strict:
    "validategml (w\<lparr>guess_type := g, FORMATS := F\<rparr>) (data_input\<lparr>data_format := f\<rparr>) MODE_STRICT
       = validategml w data_input MODE_STRICT"
    "validategeojson (w\<lparr>guess_type := g, FORMATS := F\<rparr>) (data_input\<lparr>data_format := f\<rparr>) MODE_STRICT
       = validategeojson w data_input MODE_STRICT"
    "validateshapefile (w\<lparr>guess_type := g, FORMATS := F\<rparr>) (data_input\<lparr>data_format := f\<rparr>) MODE_STRICT
       = validateshapefile w data_input MODE_STRICT"
    "validategeotiff (w\<lparr>guess_type := g, FORMATS := F\<rparr>) (data_input\<lparr>data_format := f\<rparr>) MODE_STRICT
       = validategeotiff w data_input MODE_STRICT"
    by (simp_all add: validator_defs mode_defs gml_strict_def geojson_strict_def
        geotiff_strict_def shp_strict_ignores_simple_inputs)
  have gml_valid: "ogr_Open w [] (file_path data_input) = Inr ds
        \<and> urlopen w (schema (data_format data_input)) = Inr response
        \<and> etree_parse w response = Inr gmlschema_doc
        \<and> etree_XMLSchema w gmlschema_doc = Inr gmlschema
        \<and> etree_parse w (stream data_input) = Inr doc
        \<and> XMLSchema_validate w gmlschema doc = Inr valid \<longrightarrow>
        validategml w data_input MODE_VERYSTRICT = Inr valid"
    by (auto simp: validategml_def mode_defs gml_strict_def gml_verystrict_def gml_try_body_def
        split: option.split)
  have geojson_valid: "ogr_Open w [] (file_path data_input) = Inr ds
        \<and> open_json_load w (geojson_schema_file w ''geojson.json'') = Inr geojson_base
        \<and> open_json_load w (geojson_schema_file w ''crs.json'') = Inr crs_json
        \<and> open_json_load w (geojson_schema_file w ''bbox.json'') = Inr bbox_json
        \<and> open_json_load w (geojson_schema_file w ''geometry.json'') = Inr geometry_json
        \<and> stream_read w (stream data_input) = Inr json_text
        \<and> json_loads w json_text = Inr document
        \<and> validator_validate w
             (Draft4Validator geojson_base
                (RefResolver ''http://json-schema.org/geojson/geojson.json'' geojson_base
                   [(''http://json-schema.org/geojson/crs.json'', crs_json),
                    (''http://json-schema.org/geojson/bbox.json'', bbox_json),
                    (''http://json-schema.org/geojson/geometry.json'', geometry_json)]))
             document = Inr () \<longrightarrow>
        validategeojson w data_input MODE_VERYSTRICT = Inr True"
    by (auto simp: validategeojson_def mode_defs geojson_strict_def geojson_verystrict_def
        geojson_try_body_def split: option.split)
  have verystrict: "ogr_Open w [] (file_path data_input) = Inr ds
        \<and> open' [] (file_path data_input) = Inr ds' \<longrightarrow>
        validategml (w\<lparr>guess_type := g, FORMATS := F, ogr_Open := open'\<rparr>)
            (data_input\<lparr>data_format := (data_format data_input)\<lparr>mime_type := m\<rparr>\<rparr>)
            MODE_VERYSTRICT
          = validategml w data_input MODE_VERYSTRICT
        \<and> validategeojson (w\<lparr>guess_type := g, FORMATS := F, ogr_Open := open'\<rparr>)
            (data_input\<lparr>data_format := (data_format data_input)\<lparr>mime_type := m\<rparr>\<rparr>)
            MODE_VERYSTRICT
          = validategeojson w data_input MODE_VERYSTRICT"
    by (auto simp: validategml_def validategeojson_def mode_defs gml_strict_def
        geojson_strict_def gml_verystrict_def gml_try_body_def geojson_verystrict_def
        geojson_try_body_def get_schemas_home_def split: option.split)
  from levels strict gml_valid geojson_valid verystrict show ?thesis
    by (intro conjI)
qed

text \<open>
  A GML file declared as \<^verbatim>\<open>text/plain\<close> fails at SIMPLE and passes at STRICT; a file
  declared as GML that no driver opens passes at SIMPLE and fails at STRICT; a document
  declared as \<^verbatim>\<open>text/plain\<close> that no driver opens and that conforms to the schema fails
  at SIMPLE, fails at STRICT and passes at VERYSTRICT, in both schema-bearing validators.
\<close>

theorem verdict_is_highest_check_witness:
  "validategml gml_world gml_declared_txt_input MODE_SIMPLE = Inr False
   \<and> validategml gml_world gml_declared_txt_input MODE_STRICT = Inr True
   \<and> validategml base_world gml_input MODE_SIMPLE = Inr True
   \<and> validategml base_world gml_input MODE_STRICT = Inr False
   \<and> validategml schema_valid_world gml_declared_txt_input MODE_SIMPLE = Inr False
   \<and> validategml schema_valid_world gml_declared_txt_input MODE_STRICT = Inr False
   \<and> validategml schema_valid_world gml_declared_txt_input MODE_VERYSTRICT = Inr True
   \<and> validategeojson base_world geojson_declared_txt_input MODE_SIMPLE = Inr False
   \<and> validategeojson base_world geojson_declared_txt_input MODE_STRICT = Inr False
   \<and> validategeojson base_world geojson_declared_txt_input MODE_VERYSTRICT = Inr True"
  using verdict_is_highest_check [of gml_world gml_declared_txt_input]
    verdict_is_highest_check [of base_world gml_input]
    verdict_is_highest_check [where w = schema_valid_world
      and data_input = gml_declared_txt_input and ds = None
      and response = "PyObj ''http://schemas.opengis.net/gml/3.1.1/base/feature.xsd''"
      and gmlschema_doc = "PyObj ''http://schemas.opengis.net/gml/3.1.1/base/feature.xsd''"
      and gmlschema = "PyObj ''http://schemas.opengis.net/gml/3.1.1/base/feature.xsd''"
      and doc = "PyObj ''roads.gml''" and valid = True]
    verdict_is_highest_check [where w = base_world
      and data_input = geojson_declared_txt_input and ds = None
      and geojson_base = "PyObj ''/srv/pywps/validator/../schemas/geojson/geojson.json''"
      and crs_json = "PyObj ''/srv/pywps/validator/../schemas/geojson/crs.json''"
      and bbox_json = "PyObj ''/srv/pywps/validator/../schemas/geojson/bbox.json''"
      and geometry_json = "PyObj ''/srv/pywps/validator/../schemas/geojson/geometry.json''"
      and json_text = "''{}''" and document = "PyObj ''{}''"]
  by (simp add: gml_simple_def geojson_simple_def gml_strict_def geojson_strict_def
      gml_verystrict_def gml_try_body_def geojson_verystrict_def geojson_try_body_def
      gml_world_def schema_valid_world_def base_world_def gml_declared_txt_input_def
      geojson_declared_txt_input_def gml_input_def geojson_input_def example_formats_def
      get_schemas_home_def os_path_join_def)

text \<open>
  C7: validateshapefile and validategeotiff have no check above STRICT; called with
  mode VERYSTRICT each returns what it returns with mode STRICT on the same input (for
  the shapefile validator, with the same extractions).
\<close>

theorem no_verystrict_level_for_shapefile_and_geotiff:
  "validateshapefile w data_input MODE_VERYSTRICT = validateshapefile w data_input MODE_STRICT
   \<and> validategeotiff w data_input MODE_VERYSTRICT = validategeotiff w data_input MODE_STRICT"
  by (simp add: validateshapefile_def validategeotiff_def mode_defs)

section \<open>Mode VERYSTRICT\<close>

text \<open>
  C1, as the code has it. Once the STRICT block has returned:
  validategml at VERYSTRICT returns a verdict, and the verdict is False whenever the
  fetch of the schema, the parse of the schema document, the construction of the
  schema, the parse of the input or the validation raises.
  validategeojson at VERYSTRICT returns False when the validation raises
  \<^verbatim>\<open>jsonschema.ValidationError\<close>; an exception raised while one of the four bundled
  schema files is read, which happens before the \<^verbatim>\<open>try\<close>, leaves the call.
\<close>

theorem verystrict_exceptions:
  "ogr_Open w [] (file_path data_input) = Inr ds \<longrightarrow>
      (\<exists>passed. validategml w data_input MODE_VERYSTRICT = Inr passed)
    \<and> (urlopen w (schema (data_format data_input)) = Inl e \<longrightarrow>
         validategml w data_input MODE_VERYSTRICT = Inr False)
    \<and> (urlopen w (schema (data_format data_input)) = Inr response
         \<and> etree_parse w response = Inl e \<longrightarrow>
         validategml w data_input MODE_VERYSTRICT = Inr False)
    \<and> (urlopen w (schema (data_format data_input)) = Inr response
         \<and> etree_parse w response = Inr gmlschema_doc
         \<and> etree_XMLSchema w gmlschema_doc = Inl e \<longrightarrow>
         validategml w data_input MODE_VERYSTRICT = Inr False)
    \<and> (urlopen w (schema (data_format data_input)) = Inr response
         \<and> etree_parse w response = Inr gmlschema_doc
         \<and> etree_XMLSchema w gmlschema_doc = Inr gmlschema
         \<and> etree_parse w (stream data_input) = Inl e \<longrightarrow>
         validategml w data_input MODE_VERYSTRICT = Inr False)
    \<and> (urlopen w (schema (data_format data_input)) = Inr response
         \<and> etree_parse w response = Inr gmlschema_doc
         \<and> etree_XMLSchema w gmlschema_doc = Inr gmlschema
         \<and> etree_parse w (stream data_input) = Inr doc
         \<and> XMLSchema_validate w gmlschema doc = Inl e \<longrightarrow>
         validategml w data_input MODE_VERYSTRICT = Inr False)
    \<and> (open_json_load w (geojson_schema_file w ''geojson.json'') = Inr geojson_base
         \<and> open_json_load w (geojson_schema_file w ''crs.json'') = Inr crs_json
         \<and> open_json_load w (geojson_schema_file w ''bbox.json'') = Inr bbox_json
         \<and> open_json_load w (geojson_schema_file w ''geometry.json'') = Inr geometry_json
         \<and> stream_read w (stream data_input) = Inr json_text
         \<and> json_loads w json_text = Inr document
         \<and> validator_validate w
              (Draft4Validator geojson_base
                 (RefResolver ''http://json-schema.org/geojson/geojson.json'' geojson_base
                    [(''http://json-schema.org/geojson/crs.json'', crs_json),
                     (''http://json-schema.org/geojson/bbox.json'', bbox_json),
                     (''http://json-schema.org/geojson/geometry.json'', geometry_json)]))
              document = Inl ValidationError \<longrightarrow>
         validategeojson w data_input MODE_VERYSTRICT = Inr False)
    \<and> (open_json_load w (geojson_schema_file w ''geojson.json'') = Inl e \<longrightarrow>
         validategeojson w data_input MODE_VERYSTRICT = Inl e)
    \<and> (open_json_load w (geojson_schema_file w ''geojson.json'') = Inr geojson_base
         \<and> open_json_load w (geojson_schema_file w ''crs.json'') = Inl e \<longrightarrow>
         validategeojson w data_input MODE_VERYSTRICT = Inl e)
    \<and> (open_json_load w (geojson_schema_file w ''geojson.json'') = Inr geojson_base
         \<and> open_json_load w (geojson_schema_file w ''crs.json'') = Inr crs_json
         \<and> open_json_load w (geojson_schema_file w ''bbox.json'') = Inl e \<longrightarrow>
         validategeojson w data_input MODE_VERYSTRICT = Inl e)
    \<and> (open_json_load w (geojson_schema_file w ''geojson.json'') = Inr geojson_base
         \<and> open_json_load w (geojson_schema_file w ''crs.json'') = Inr crs_json
         \<and> open_json_load w (geojson_schema_file w ''bbox.json'') = Inr bbox_json
         \<and> open_json_load w (geojson_schema_file w ''geometry.json'') = Inl e \<longrightarrow>
         validategeojson w data_input MODE_VERYSTRICT = Inl e)"
  by (auto simp add: validategml_def validategeojson_def mode_defs gml_strict_def
      geojson_strict_def gml_verystrict_def gml_try_body_def geojson_verystrict_def
      geojson_try_body_def split: sum.split option.split)

text \<open>
  A GML input whose schema URL cannot be fetched, a GeoJSON input that the schema
  rejects, and a GeoJSON input on an installation whose schema files cannot be read.
\<close>

theorem verystrict_exceptions_witness:
  "validategml gml_world gml_input MODE_VERYSTRICT = Inr False
   \<and> validategeojson invalid_geojson_world geojson_input MODE_VERYSTRICT = Inr False
   \<and> validategeojson missing_schemas_world geojson_input MODE_VERYSTRICT = Inl OSError"
  using verystrict_exceptions [where w = gml_world and data_input = gml_input
      and ds = "Some ''GML''" and e = URLError]
    verystrict_exceptions [where w = invalid_geojson_world and data_input = geojson_input
      and ds = "Some ''GeoJSON''"
      and geojson_base = "PyObj ''/srv/pywps/validator/../schemas/geojson/geojson.json''"
      and crs_json = "PyObj ''/srv/pywps/validator/../schemas/geojson/crs.json''"
      and bbox_json = "PyObj ''/srv/pywps/validator/../schemas/geojson/bbox.json''"
      and geometry_json = "PyObj ''/srv/pywps/validator/../schemas/geojson/geometry.json''"
      and json_text = "''{}''" and document = "PyObj ''{}''"]
    verystrict_exceptions [where w = missing_schemas_world and data_input = geojson_input
      and ds = "Some ''GeoJSON''" and e = OSError]
  by (simp add: gml_world_def invalid_geojson_world_def missing_schemas_world_def
      base_world_def gml_input_def geojson_input_def example_formats_def
      get_schemas_home_def os_path_join_def)

text \<open>
  C1 as stated fails for validategeojson: with the bundled schema files unreadable, the
  \<^verbatim>\<open>OSError\<close> of \<^verbatim>\<open>open\<close> at line 131 is raised outside the \<^verbatim>\<open>try\<close> and leaves
  the validator, which returns no verdict.
\<close>

theorem geojson_schema_load_error_propagates:
  "validategeojson missing_schemas_world geojson_input MODE_VERYSTRICT = Inl OSError"
  by (simp add: validategeojson_def mode_defs geojson_strict_def geojson_verystrict_def
      missing_schemas_world_def base_world_def geojson_input_def)

text \<open>
  Inside the \<^verbatim>\<open>try\<close> of validategeojson only \<^verbatim>\<open>jsonschema.ValidationError\<close> is
  caught: an exception of another class raised while the stream is read, the JSON text
  is parsed or the document is validated leaves the call as well.
\<close>

lemma geojson_try_body_other_exception_propagates:
  assumes "ogr_Open w [] (file_path data_input) = Inr ds"
    and "open_json_load w (geojson_schema_file w ''geojson.json'') = Inr geojson_base"
    and "open_json_load w (geojson_schema_file w ''crs.json'') = Inr crs_json"
    and "open_json_load w (geojson_schema_file w ''bbox.json'') = Inr bbox_json"
    and "open_json_load w (geojson_schema_file w ''geometry.json'') = Inr geometry_json"
    and "geojson_try_body w data_input
           (Draft4Validator geojson_base
              (RefResolver ''http://json-schema.org/geojson/geojson.json'' geojson_base
                 [(''http://json-schema.org/geojson/crs.json'', crs_json),
                  (''http://json-schema.org/geojson/bbox.json'', bbox_json),
                  (''http://json-schema.org/geojson/geometry.json'', geometry_json)])) = Inl e"
    and "e \<noteq> ValidationError"
  shows "validategeojson w data_input MODE_VERYSTRICT = Inl e"
  using assms
  by (simp add: validategeojson_def mode_defs geojson_strict_def geojson_verystrict_def
      split: option.split)

lemma geojson_malformed_document_propagates:
  "validategeojson malformed_json_world geojson_input MODE_VERYSTRICT = Inl JSONDecodeError"
  by (simp add: validategeojson_def mode_defs geojson_strict_def geojson_verystrict_def
      geojson_try_body_def malformed_json_world_def base_world_def geojson_input_def)

section \<open>The shapefile archive\<close>

text \<open>A member name with extension \<^verbatim>\<open>.shp\<close> is true in \<^verbatim>\<open>if shape_name:\<close>.\<close>

lemma is_shp_nonempty: "is_shp name \<Longrightarrow> name \<noteq> []"
  by (auto simp: is_shp_def splitext_def rfind_def lower_def)

lemma is_shp_examples:
  "\<not> is_shp ''readme.txt''" "\<not> is_shp ''roads.dbf''" "\<not> is_shp ''a.dbf''"
  "is_shp ''a.shp''" "is_shp ''b.SHP''"
  by code_simp+

text \<open>
  With no member of extension \<^verbatim>\<open>.shp\<close>, \<^verbatim>\<open>shape_name\<close> stays \<^verbatim>\<open>None\<close>, line 193
  is skipped and \<^verbatim>\<open>data_source\<close> is never assigned: line 195 reads an unassigned
  local. This holds for every archive whose members all extract.
\<close>

lemma shapefile_without_shp_member_raises:
  assumes "zipfile_ZipFile w (file_path data_input) = Inr names"
    and "\<forall>i<length names.
           zip_extract w (map (\<lambda>n. Extract n (tempdir data_input)) (take i names))
             (file_path data_input) (names ! i) (tempdir data_input) = Inr ()"
    and "filter is_shp names = []"
  shows "validateshapefile w data_input MODE_STRICT =
    (Inl UnboundLocalError, map (\<lambda>n. Extract n (tempdir data_input)) names)"
proof -
  have "extract_loop w (file_path data_input) (tempdir data_input) names None [] =
      (Inr None, map (\<lambda>n. Extract n (tempdir data_input)) names)"
    using extract_loop_all_succeed [of names w "[]" "tempdir data_input" "file_path data_input" None]
      assms(2,3) by simp
  then show ?thesis
    using assms(1)
    by (simp add: validateshapefile_def shp_strict_def mode_defs)
qed

text \<open>
  C2 says that validateshapefile at mode STRICT returns False, without an exception,
  when the archive has no member with extension \<^verbatim>\<open>.shp\<close>. On the archive with the
  members \<^verbatim>\<open>readme.txt\<close> and \<^verbatim>\<open>roads.dbf\<close> the code extracts both and then raises
  \<^verbatim>\<open>UnboundLocalError\<close>.
\<close>

theorem shapefile_no_shp_member_unbound_local:
  "validateshapefile no_shp_world shp_input MODE_STRICT =
     (Inl UnboundLocalError,
      [Extract ''readme.txt'' ''/tmp/in/scratch'', Extract ''roads.dbf'' ''/tmp/in/scratch''])"
  by (simp add: validateshapefile_def shp_strict_def mode_defs no_shp_world_def base_world_def
      shp_input_def is_shp_examples)

text \<open>
  C10: validateshapefile at mode STRICT, on an archive that opens and whose members all
  extract, extracts every member into the scratch directory of the input, in the order
  of the member list; when at least one member has extension \<^verbatim>\<open>.shp\<close>, the last such
  member is the one path opened with the vector driver, after all extractions, and the
  verdict is the driver-name check of that open call.
\<close>

theorem shapefile_extracts_all_and_opens_last_shp:
  assumes "zipfile_ZipFile w (file_path data_input) = Inr names"
    and "\<forall>i<length names.
           zip_extract w (map (\<lambda>n. Extract n (tempdir data_input)) (take i names))
             (file_path data_input) (names ! i) (tempdir data_input) = Inr ()"
    and "filter is_shp names \<noteq> []"
  shows "validateshapefile w data_input MODE_STRICT =
    (case ogr_Open w (map (\<lambda>n. Extract n (tempdir data_input)) names)
            (os_path_join (tempdir data_input) (last (filter is_shp names))) of
       Inl e \<Rightarrow> Inl e
     | Inr None \<Rightarrow> Inr False
     | Inr (Some driver_name) \<Rightarrow> Inr (driver_name = ''ESRI Shapefile''),
     map (\<lambda>n. Extract n (tempdir data_input)) names
       @ [OgrOpen (os_path_join (tempdir data_input) (last (filter is_shp names)))])"
proof -
  have "extract_loop w (file_path data_input) (tempdir data_input) names None [] =
      (Inr (Some (last (filter is_shp names))), map (\<lambda>n. Extract n (tempdir data_input)) names)"
    using extract_loop_all_succeed [of names w "[]" "tempdir data_input" "file_path data_input" None]
      assms(2,3) by simp
  then show ?thesis
    using assms(1)
    by (simp add: validateshapefile_def shp_strict_def mode_defs Let_def
        split: sum.split option.split)
qed

text \<open>
  The archive \<^verbatim>\<open>a.shp\<close>, \<^verbatim>\<open>a.dbf\<close>, \<^verbatim>\<open>b.SHP\<close>, in a world where only
  \<^verbatim>\<open>b.SHP\<close> opens as a shapefile: all three members are extracted, \<^verbatim>\<open>b.SHP\<close> is
  opened and the verdict is True.
\<close>

theorem shapefile_extracts_all_and_opens_last_shp_witness:
  "validateshapefile two_shp_world shp_input MODE_STRICT =
     (Inr True,
      [Extract ''a.shp'' ''/tmp/in/scratch'', Extract ''a.dbf'' ''/tmp/in/scratch'',
       Extract ''b.SHP'' ''/tmp/in/scratch'', OgrOpen ''/tmp/in/scratch/b.SHP''])"
proof -
  have names: "zipfile_ZipFile two_shp_world (file_path shp_input)
      = Inr [''a.shp'', ''a.dbf'', ''b.SHP'']"
    by (simp add: two_shp_world_def base_world_def)
  have extracts: "\<forall>i<length [''a.shp'', ''a.dbf'', ''b.SHP''].
      zip_extract two_shp_world
        (map (\<lambda>n. Extract n (tempdir shp_input)) (take i [''a.shp'', ''a.dbf'', ''b.SHP'']))
        (file_path shp_input) ([''a.shp'', ''a.dbf'', ''b.SHP''] ! i) (tempdir shp_input) = Inr ()"
    by (simp add: two_shp_world_def base_world_def)
  have shps: "filter is_shp [''a.shp'', ''a.dbf'', ''b.SHP''] \<noteq> []"
    by (simp add: is_shp_examples)
  show ?thesis
    using shapefile_extracts_all_and_opens_last_shp [OF names extracts shps]
    by (simp add: is_shp_examples two_shp_world_def base_world_def shp_input_def
        os_path_join_def)
qed

section \<open>Determinism\<close>

text \<open>
  C8: two calls of the same validator with the same input and mode yield the same
  result when the collaborators return the same answers both times. Each call runs in a
  world, the state of the outside when the call is made; the validators keep nothing
  from one call to the next (they assign local variables only), so whatever the first
  call changed reaches the second through the world alone. If every call that the
  validator makes in the first world has the same answer in the second, the validator
  returns the same verdict, or raises the same exception, in both, and the shapefile
  validator performs the same extractions. The two worlds may differ on every call that
  the validator does not make.
\<close>

theorem same_answers_same_verdict:
  "(gml_same_answers w1 w2 data_input mode \<longrightarrow>
      validategml w1 data_input mode = validategml w2 data_input mode)
   \<and> (geojson_same_answers w1 w2 data_input mode \<longrightarrow>
      validategeojson w1 data_input mode = validategeojson w2 data_input mode)
   \<and> (shp_same_answers w1 w2 data_input mode \<longrightarrow>
      validateshapefile w1 data_input mode = validateshapefile w2 data_input mode)
   \<and> (geotiff_same_answers w1 w2 data_input mode \<longrightarrow>
      validategeotiff w1 data_input mode = validategeotiff w2 data_input mode)"
proof (intro conjI impI)
  assume a: "gml_same_answers w1 w2 data_input mode"
  show "validategml w1 data_input mode = validategml w2 data_input mode"
    using a
    by (auto simp: mode_defs gml_same_answers_def validategml_def gml_simple_def gml_strict_def
        gml_verystrict_def split: if_splits sum.splits dest: gml_try_body_same)
next
  assume a: "geojson_same_answers w1 w2 data_input mode"
  show "validategeojson w1 data_input mode = validategeojson w2 data_input mode"
    using a
    by (auto simp: mode_defs geojson_same_answers_def validategeojson_def geojson_simple_def
        geojson_strict_def split: if_splits sum.splits dest: geojson_verystrict_same)
next
  assume a: "shp_same_answers w1 w2 data_input mode"
  show "validateshapefile w1 data_input mode = validateshapefile w2 data_input mode"
    using a
    by (auto simp: mode_defs shp_same_answers_def validateshapefile_def shp_simple_def
        split: if_splits dest: shp_strict_same)
next
  assume a: "geotiff_same_answers w1 w2 data_input mode"
  show "validategeotiff w1 data_input mode = validategeotiff w2 data_input mode"
    using a
    by (auto simp: mode_defs geotiff_same_answers_def validategeotiff_def geotiff_simple_def
        geotiff_strict_def split: if_splits)
qed

text \<open>
  Two worlds that differ on a path, a file name and a URL that the validation of
  \<open>gml_input\<close> never asks about; and a second validation of an archive, run in the
  world that the first validation left behind, with the members already extracted.
\<close>

theorem same_answers_same_verdict_witness:
  "ogr_Open gml_world [] ''/tmp/in/other.gml'' \<noteq> ogr_Open gml_world_later [] ''/tmp/in/other.gml''
   \<and> validategml gml_world gml_input MODE_VERYSTRICT
       = validategml gml_world_later gml_input MODE_VERYSTRICT
   \<and> validategeojson gml_world gml_input MODE_VERYSTRICT
       = validategeojson gml_world_later gml_input MODE_VERYSTRICT
   \<and> validategeotiff gml_world gml_input MODE_VERYSTRICT
       = validategeotiff gml_world_later gml_input MODE_VERYSTRICT
   \<and> validateshapefile unpacking_world shp_input MODE_STRICT = (Inr True, first_call_events)
   \<and> validateshapefile (later_world first_call_events unpacking_world) shp_input MODE_STRICT
       = validateshapefile unpacking_world shp_input MODE_STRICT"
proof -
  have differ: "ogr_Open gml_world [] ''/tmp/in/other.gml''
      \<noteq> ogr_Open gml_world_later [] ''/tmp/in/other.gml''"
    by (simp add: gml_world_later_def gml_world_def base_world_def)
  have gml: "gml_same_answers gml_world gml_world_later gml_input MODE_VERYSTRICT"
    by (simp add: gml_same_answers_def gml_try_same_answers_def mode_defs
        gml_world_later_def gml_world_def base_world_def gml_input_def example_formats_def)
  have geojson: "geojson_same_answers gml_world gml_world_later gml_input MODE_VERYSTRICT"
    by (simp add: geojson_same_answers_def geojson_verystrict_same_answers_def
        geojson_try_same_answers_def mode_defs
        gml_world_later_def gml_world_def base_world_def gml_input_def example_formats_def)
  have geotiff: "geotiff_same_answers gml_world gml_world_later gml_input MODE_VERYSTRICT"
    by (simp add: geotiff_same_answers_def mode_defs
        gml_world_later_def gml_world_def base_world_def gml_input_def)
  have first: "validateshapefile unpacking_world shp_input MODE_STRICT
      = (Inr True, first_call_events)"
    by (simp add: validateshapefile_def shp_strict_def mode_defs unpacking_world_def
        base_world_def shp_input_def is_shp_examples os_path_join_def first_call_events_def)
  have loop: "extract_loop unpacking_world (file_path shp_input) (tempdir shp_input)
      [''a.shp'', ''a.dbf'', ''b.SHP''] None []
    = (Inr (Some ''b.SHP''),
       [Extract ''a.shp'' ''/tmp/in/scratch'', Extract ''a.dbf'' ''/tmp/in/scratch'',
        Extract ''b.SHP'' ''/tmp/in/scratch''])"
    by (simp add: unpacking_world_def base_world_def shp_input_def is_shp_examples)
  have shp: "shp_same_answers unpacking_world (later_world first_call_events unpacking_world)
      shp_input MODE_STRICT"
    using loop
    by (simp add: shp_same_answers_def shp_strict_same_answers_def mode_defs later_world_def
        unpacking_world_def base_world_def shp_input_def os_path_join_def
        first_call_events_def)
  show ?thesis
    using same_answers_same_verdict [of gml_world gml_world_later gml_input MODE_VERYSTRICT]
      same_answers_same_verdict [of unpacking_world
        "later_world first_call_events unpacking_world" shp_input MODE_STRICT]
      differ gml geojson geotiff first shp
    by simp
qed

end
